theory Spec2Isabelle
  imports Complex_Main
begin

section \<open>Data model of webapp/app.py\<close>

text \<open>
  The module keeps four globals: \<open>predictor\<close>, \<open>device\<close>, \<open>gaussian_storage\<close> and
  \<open>ply_storage\<close>. Its handlers also read and change the machine they run on: whether
  CUDA (or Metal) is there, which files exist, and the calls made into the \<open>sharp\<close> and
  \<open>torch\<close> libraries. One record holds both. The libraries' own values (the Gaussians,
  the predictor, a rendered frame) are opaque: type variables \<open>'g\<close>, \<open>'p\<close>, \<open>'f\<close>.
  A Python exception is the text \<open>str(e)\<close> that the handlers echo.
  Floats are read as real numbers: rounding is outside this model.
\<close>

type_synonym session = string
type_synonym path = string
type_synonym eye = "real \<times> real \<times> real"

datatype device_t = Cuda | Mps | Cpu

text \<open>\<open>SceneMetaData(f_px, (width, height), color_space)\<close>.\<close>

record scene_meta =
  focal_length_px :: real
  resolution_px :: "nat \<times> nat"
  color_space :: string

record ('g, 'p, 'f) server =
  predictor :: "'p option"
  device :: "device_t option"
  gaussian_storage :: "session \<rightharpoonup> 'g \<times> scene_meta"
  ply_storage :: "session \<rightharpoonup> path"
  cuda_available :: bool
  mps_available :: "bool option"
  files :: "path set"
  renderer_calls :: nat
  hub_downloads :: nat
  videos :: "path \<rightharpoonup> 'f list"

text \<open>
  \<open>cuda_available\<close> is \<open>torch.cuda.is_available()\<close>; \<open>mps_available\<close> is
  \<open>torch.backends.mps.is_available()\<close>, \<open>None\<close> where the attribute is missing
  (AttributeError); \<open>files\<close> are the paths that exist on disk. \<open>renderer_calls\<close> and
  \<open>hub_downloads\<close> count the calls of the GSplat renderer and of
  \<open>torch.hub.load_state_dict_from_url\<close>. \<open>videos\<close> holds, for the path of each video
  whose \<open>VideoWriter\<close> was closed, the frames that the writer was given.
\<close>

text \<open>The body of the JSON answer of an upload.\<close>

record upload_json =
  session_id :: session
  width :: nat
  height :: nat
  focal_length :: real
  ply_path :: string

text \<open>
  What a handler answers: a raised \<open>HTTPException(status_code, detail)\<close>, the upload's
  \<open>JSONResponse\<close>, the one of \<open>/api/check\<close>, or a \<open>FileResponse(path, media_type)\<close>.
\<close>

datatype response =
    HTTPException nat string
  | JSONResponse upload_json
  | CheckResponse bool string
  | FileResponse path string

fun status :: "response \<Rightarrow> nat" where
  "status (HTTPException c d) = c"
| "status (JSONResponse j) = 200"
| "status (CheckResponse c d) = 200"
| "status (FileResponse p m) = 200"

section \<open>Model loader\<close>

definition get_device :: "('g, 'p, 'f) server \<Rightarrow> device_t" where
  "get_device s =
     (if cuda_available s then Cuda
      else (case mps_available s of
              Some True \<Rightarrow> Mps
            | _ \<Rightarrow> Cpu))"

text \<open>
  The library calls of \<open>load_model\<close>: \<open>state_dict\<close> is the exception of
  \<open>torch.hub.load_state_dict_from_url\<close>, if it raises; \<open>gaussian_predictor\<close> is what
  \<open>create_predictor\<close>, \<open>load_state_dict\<close>, \<open>eval\<close> and \<open>to(device)\<close> give on that device.
\<close>

record 'p load_io =
  state_dict :: "string option"
  gaussian_predictor :: "device_t \<Rightarrow> string + 'p"

definition load_model :: "'p load_io \<Rightarrow> ('g, 'p, 'f) server \<Rightarrow> (string + unit) \<times> ('g, 'p, 'f) server" where
  "load_model io s =
     (if predictor s \<noteq> None then (Inr (), s)
      else
        let d = get_device s;
            s1 = s\<lparr>device := Some d\<rparr>;
            s2 = s1\<lparr>hub_downloads := hub_downloads s1 + 1\<rparr>
        in (case state_dict io of
              Some e \<Rightarrow> (Inl e, s2)
            | None \<Rightarrow>
                (case gaussian_predictor io d of
                   Inl e \<Rightarrow> (Inl e, s2)
                 | Inr p \<Rightarrow> (Inr (), s2\<lparr>predictor := Some p\<rparr>))))"

definition startup_event :: "'p load_io \<Rightarrow> ('g, 'p, 'f) server \<Rightarrow> (string + unit) \<times> ('g, 'p, 'f) server" where
  "startup_event io s = load_model io s"

section \<open>Static page, system check, PLY retrieval\<close>

definition root :: "path \<Rightarrow> ('g, 'p, 'f) server \<Rightarrow> response \<times> ('g, 'p, 'f) server" where
  "root static_dir s = (FileResponse (static_dir @ ''/index.html'') '''', s)"

definition device_str :: "device_t \<Rightarrow> string" where
  "device_str d = (case d of Cuda \<Rightarrow> ''cuda'' | Mps \<Rightarrow> ''mps'' | Cpu \<Rightarrow> ''cpu'')"

definition check_system :: "('g, 'p, 'f) server \<Rightarrow> response \<times> ('g, 'p, 'f) server" where
  "check_system s =
     (CheckResponse (cuda_available s)
        (case device s of Some d \<Rightarrow> device_str d | None \<Rightarrow> ''unknown''), s)"

definition get_ply :: "session \<Rightarrow> ('g, 'p, 'f) server \<Rightarrow> response \<times> ('g, 'p, 'f) server" where
  "get_ply sid s =
     (case ply_storage s sid of
        None \<Rightarrow> (HTTPException 404 ''PLY file not found'', s)
      | Some p \<Rightarrow>
          if p \<notin> files s then (HTTPException 404 ''PLY file does not exist'', s)
          else (FileResponse p ''application/octet-stream'', s))"

section \<open>Upload handler\<close>

text \<open>
  The library calls of one upload. \<open>decoded\<close>: reading the file, \<open>Image.open\<close>,
  \<open>convert("RGB")\<close> and \<open>np.array\<close> give the image, of which the handler uses
  \<open>shape[:2] = (height, width)\<close>, or raise. \<open>uuid4\<close>: the string of \<open>uuid.uuid4()\<close>.
  \<open>preprocessing\<close> and \<open>inference\<close>: the two halves of \<open>predict_image\<close>, the tensor
  code before the predictor is called, and the predictor's call with all that follows it.
  \<open>tmp_ply\<close>: the name of the \<open>NamedTemporaryFile\<close>, or its exception. \<open>save_ply\<close>: the
  exception of \<open>save_ply\<close>, if it raises.
\<close>

record ('g, 'p) upload_io =
  decoded :: "string + nat \<times> nat"
  uuid4 :: session
  preprocessing :: "string option"
  inference :: "'p \<Rightarrow> real \<Rightarrow> device_t \<Rightarrow> string + 'g"
  tmp_ply :: "string + path"
  save_ply :: "string option"

definition predict_image ::
  "('g, 'p) upload_io \<Rightarrow> 'p option \<Rightarrow> real \<Rightarrow> device_t \<Rightarrow> string + 'g" where
  "predict_image io predictor_model f_px d =
     (case preprocessing io of
        Some e \<Rightarrow> Inl e
      | None \<Rightarrow>
          (case predictor_model of
             None \<Rightarrow> Inl ''NoneType object is not callable''
           | Some p \<Rightarrow> inference io p f_px d))"

text \<open>
  \<open>convert_focallength\<close> is \<open>sharp.utils.io.convert_focallength\<close>, a parameter. The
  whole body is inside \<open>try\<close>: every exception, the handler's own
  \<open>HTTPException(500, "Device not initialized")\<close> too, comes out as
  \<open>HTTPException(500, str(e))\<close>, with the stores as they were when it was raised.
\<close>

definition upload_image ::
  "(nat \<Rightarrow> nat \<Rightarrow> real \<Rightarrow> real) \<Rightarrow> ('g, 'p) upload_io \<Rightarrow> ('g, 'p, 'f) server
     \<Rightarrow> response \<times> ('g, 'p, 'f) server" where
  "upload_image convert_focallength io s =
     (case decoded io of
        Inl e \<Rightarrow> (HTTPException 500 e, s)
      | Inr (h, w) \<Rightarrow>
          let f_px = convert_focallength w h 30;
              sid = uuid4 io
          in (case device s of
                None \<Rightarrow> (HTTPException 500 ''500: Device not initialized'', s)
              | Some d \<Rightarrow>
                  (case predict_image io (predictor s) f_px d of
                     Inl e \<Rightarrow> (HTTPException 500 e, s)
                   | Inr gaussians \<Rightarrow>
                       let metadata = \<lparr>focal_length_px = f_px, resolution_px = (w, h),
                                        color_space = ''linearRGB''\<rparr>;
                           s1 = s\<lparr>gaussian_storage :=
                                    (gaussian_storage s)(sid \<mapsto> (gaussians, metadata))\<rparr>
                       in (case tmp_ply io of
                             Inl e \<Rightarrow> (HTTPException 500 e, s1)
                           | Inr p \<Rightarrow>
                               let s2 = s1\<lparr>files := insert p (files s1)\<rparr>
                               in (case save_ply io of
                                     Some e \<Rightarrow> (HTTPException 500 e, s2)
                                   | None \<Rightarrow>
                                       (JSONResponse
                                          \<lparr>session_id = sid, width = w, height = h,
                                           focal_length = f_px,
                                           ply_path = ''/api/ply/'' @ sid\<rparr>,
                                        s2\<lparr>ply_storage := (ply_storage s2)(sid \<mapsto> p)\<rparr>))))))"

section \<open>Render handler\<close>

text \<open>
  The library calls of one render. \<open>camera_info\<close>: the exception of the intrinsics
  tensor, \<open>create_camera_model\<close>, \<open>camera_model.compute\<close> or the construction of the
  \<open>GSplatRenderer\<close>, if one raises. \<open>rendering_output\<close>: the renderer's call on the
  stored Gaussians, the eye position and the requested size; \<open>renderer_calls\<close> counts
  it. \<open>tempdir\<close> and \<open>png_uuid\<close> name the PNG; \<open>save_image\<close> is the exception of
  the conversion and of \<open>save_image\<close>, if one raises.
\<close>

record ('g, 'f) render_io =
  camera_info :: "string option"
  rendering_output :: "'g \<Rightarrow> eye \<Rightarrow> int \<Rightarrow> int \<Rightarrow> string + 'f"
  tempdir :: path
  png_uuid :: string
  save_image :: "string option"

definition render_view ::
  "session \<Rightarrow> real \<Rightarrow> real \<Rightarrow> real \<Rightarrow> int \<Rightarrow> int \<Rightarrow> ('g, 'f) render_io \<Rightarrow> ('g, 'p, 'f) server
     \<Rightarrow> response \<times> ('g, 'p, 'f) server" where
  "render_view sid eye_x eye_y eye_z w h io s =
     (case gaussian_storage s sid of
        None \<Rightarrow> (HTTPException 404 ''Session not found'', s)
      | Some (gaussians, metadata) \<Rightarrow>
          if \<not> cuda_available s then
            (HTTPException 503
               ''Rendering requires CUDA GPU. Server-side rendering is not available on this system.'', s)
          else
            (case camera_info io of
               Some e \<Rightarrow> (HTTPException 500 e, s)
             | None \<Rightarrow>
                 let s1 = s\<lparr>renderer_calls := renderer_calls s + 1\<rparr>
                 in (case rendering_output io gaussians (eye_x, eye_y, eye_z) w h of
                       Inl e \<Rightarrow> (HTTPException 500 e, s1)
                     | Inr color \<Rightarrow>
                         let tmp_path = tempdir io @ ''/sharp_render_'' @ png_uuid io @ ''.png''
                         in (case save_image io of
                               Some e \<Rightarrow> (HTTPException 500 e, s1)
                             | None \<Rightarrow>
                                 (FileResponse tmp_path ''image/png'',
                                  s1\<lparr>files := insert tmp_path (files s1)\<rparr>)))))"

section \<open>Video handler\<close>

definition num_steps :: nat where
  "num_steps = 120"

text \<open>\<open>t = (i / (num_steps - 1) - 0.5) * 0.5\<close>\<close>

definition t_of :: "nat \<Rightarrow> real" where
  "t_of i = (real i / real (num_steps - 1) - 0.5) * 0.5"

definition eye_at :: "real \<times> real \<Rightarrow> nat \<Rightarrow> eye" where
  "eye_at max_offset i =
     (fst max_offset * sin (2 * pi * t_of i), snd max_offset * cos (2 * pi * t_of i), 0)"

definition trajectory :: "real \<times> real \<Rightarrow> eye list" where
  "trajectory max_offset = map (eye_at max_offset) [0..<num_steps]"

text \<open>
  The library calls of one video. \<open>max_offset\<close>: components 0 and 1 of
  \<open>camera.compute_max_offset\<close>, or its exception. \<open>tmp_mp4\<close>: the name of the
  \<open>NamedTemporaryFile\<close>, or its exception. \<open>video_writer\<close>: the exception of the
  intrinsics tensor, \<open>create_camera_model\<close>, \<open>GSplatRenderer\<close> or \<open>VideoWriter\<close>, if one
  raises. Per step: \<open>compute\<close> (the exception of \<open>camera_model.compute\<close>), \<open>renderer\<close>
  (the renderer's call and the frame, colour and depth, made of its output) and
  \<open>add_frame\<close>. \<open>close\<close>: the exception of \<open>video_writer.close()\<close>, if it raises; when
  it returns, the frames given to the writer are the video at that path.
\<close>

record ('g, 'f) video_io =
  max_offset :: "string + real \<times> real"
  tmp_mp4 :: "string + path"
  video_writer :: "string option"
  compute :: "eye \<Rightarrow> string option"
  renderer :: "'g \<Rightarrow> eye \<Rightarrow> string + 'f"
  add_frame :: "'f \<Rightarrow> string option"
  close :: "string option"

text \<open>
  The loop \<open>for i, eye_position in enumerate(trajectory)\<close>: the frames written so far
  are \<open>written\<close>; the first exception ends it.
\<close>

fun render_frames ::
  "('g, 'f) video_io \<Rightarrow> 'g \<Rightarrow> eye list \<Rightarrow> 'f list \<Rightarrow> ('g, 'p, 'f) server
     \<Rightarrow> (string + 'f list) \<times> ('g, 'p, 'f) server" where
  "render_frames io gaussians [] written s = (Inr written, s)"
| "render_frames io gaussians (eye_position # rest) written s =
     (case compute io eye_position of
        Some e \<Rightarrow> (Inl e, s)
      | None \<Rightarrow>
          let s1 = s\<lparr>renderer_calls := renderer_calls s + 1\<rparr>
          in (case renderer io gaussians eye_position of
                Inl e \<Rightarrow> (Inl e, s1)
              | Inr color \<Rightarrow>
                  (case add_frame io color of
                     Some e \<Rightarrow> (Inl e, s1)
                   | None \<Rightarrow> render_frames io gaussians rest (written @ [color]) s1)))"

definition generate_video ::
  "session \<Rightarrow> ('g, 'f) video_io \<Rightarrow> ('g, 'p, 'f) server \<Rightarrow> response \<times> ('g, 'p, 'f) server" where
  "generate_video sid io s =
     (case gaussian_storage s sid of
        None \<Rightarrow> (HTTPException 404 ''Session not found'', s)
      | Some (gaussians, metadata) \<Rightarrow>
          if \<not> cuda_available s then
            (HTTPException 503
               ''Video generation requires CUDA. Server-side rendering is not available on this system.'', s)
          else
            (case max_offset io of
               Inl e \<Rightarrow> (HTTPException 500 e, s)
             | Inr mo \<Rightarrow>
                 (case tmp_mp4 io of
                    Inl e \<Rightarrow> (HTTPException 500 e, s)
                  | Inr video_path \<Rightarrow>
                      let s1 = s\<lparr>files := insert video_path (files s)\<rparr>
                      in (case video_writer io of
                            Some e \<Rightarrow> (HTTPException 500 e, s1)
                          | None \<Rightarrow>
                              (case render_frames io gaussians (trajectory mo) [] s1 of
                                 (Inl e, s2) \<Rightarrow> (HTTPException 500 e, s2)
                               | (Inr frames, s2) \<Rightarrow>
                                   (case close io of
                                      Some e \<Rightarrow> (HTTPException 500 e, s2)
                                    | None \<Rightarrow>
                                        (FileResponse video_path ''video/mp4'',
                                         s2\<lparr>videos := (videos s2)(video_path \<mapsto> frames)\<rparr>)))))))"

section \<open>Requests in sequence\<close>

text \<open>
  The HTTP surface as one step function, and a run of requests from a state, which
  gives the answers in order and the state after the last.
\<close>

datatype ('g, 'p, 'f) request =
    Root path
  | Check
  | Get_ply session
  | Upload "('g, 'p) upload_io"
  | Render session real real real int int "('g, 'f) render_io"
  | Video session "('g, 'f) video_io"

fun handle ::
  "(nat \<Rightarrow> nat \<Rightarrow> real \<Rightarrow> real) \<Rightarrow> ('g, 'p, 'f) request \<Rightarrow> ('g, 'p, 'f) server
     \<Rightarrow> response \<times> ('g, 'p, 'f) server" where
  "handle cf (Root d) s = root d s"
| "handle cf Check s = check_system s"
| "handle cf (Get_ply sid) s = get_ply sid s"
| "handle cf (Upload io) s = upload_image cf io s"
| "handle cf (Render sid x y z w h io) s = render_view sid x y z w h io s"
| "handle cf (Video sid io) s = generate_video sid io s"

fun run ::
  "(nat \<Rightarrow> nat \<Rightarrow> real \<Rightarrow> real) \<Rightarrow> ('g, 'p, 'f) request list \<Rightarrow> ('g, 'p, 'f) server
     \<Rightarrow> response list \<times> ('g, 'p, 'f) server" where
  "run cf [] s = ([], s)"
| "run cf (r # rs) s =
     (case handle cf r s of
        (a, s1) \<Rightarrow> (case run cf rs s1 of (as, s2) \<Rightarrow> (a # as, s2)))"

section \<open>What a run uploaded and what it answered\<close>

text \<open>
  The uploads among the requests of a run, and the session ids that its answers gave
  out (an id is given out only in the JSON answer of a successful upload).
\<close>

fun uploads :: "('g, 'p, 'f) request list \<Rightarrow> ('g, 'p) upload_io list" where
  "uploads [] = []"
| "uploads (Upload io # rs) = io # uploads rs"
| "uploads (r # rs) = uploads rs"

fun returned_ids :: "response list \<Rightarrow> session list" where
  "returned_ids [] = []"
| "returned_ids (JSONResponse j # as) = session_id j # returned_ids as"
| "returned_ids (a # as) = returned_ids as"

text \<open>
  An upload gets as far as \<open>gaussian_storage[session_id] = (gaussians, metadata)\<close>
  when the image decodes, the device is set and \<open>predict_image\<close> returns.
\<close>

definition stores_gaussians ::
  "(nat \<Rightarrow> nat \<Rightarrow> real \<Rightarrow> real) \<Rightarrow> ('g, 'p) upload_io \<Rightarrow> ('g, 'p, 'f) server \<Rightarrow> bool" where
  "stores_gaussians cf io s =
     (case decoded io of
        Inl e \<Rightarrow> False
      | Inr (h, w) \<Rightarrow>
          (case device s of
             None \<Rightarrow> False
           | Some d \<Rightarrow>
               (case predict_image io (predictor s) (cf w h 30) d of
                  Inl e \<Rightarrow> False
                | Inr g \<Rightarrow> True)))"

section \<open>Example inputs\<close>

text \<open>
  Concrete states and library behaviours on which the theorems below are run: a started
  server with empty stores and no CUDA, one holding the session \<open>s1\<close> (with or without
  CUDA), and library calls that succeed (the upload's \<open>save_ply\<close> as told).
\<close>

definition example_server :: "(nat, nat, nat) server" where
  "example_server =
     \<lparr>predictor = Some 0, device = Some Cpu, gaussian_storage = Map.empty,
      ply_storage = Map.empty, cuda_available = False, mps_available = None,
      files = {}, renderer_calls = 0, hub_downloads = 1, videos = Map.empty\<rparr>"

definition example_stored :: "bool \<Rightarrow> (nat, nat, nat) server" where
  "example_stored cuda =
     \<lparr>predictor = Some 0, device = Some Cpu,
      gaussian_storage =
        [''s1'' \<mapsto> (7, \<lparr>focal_length_px = 3, resolution_px = (3, 2),
                           color_space = ''linearRGB''\<rparr>)],
      ply_storage = [''s1'' \<mapsto> ''/tmp/a.ply''], cuda_available = cuda,
      mps_available = None, files = {''/tmp/a.ply''}, renderer_calls = 0,
      hub_downloads = 1, videos = Map.empty\<rparr>"

definition example_load :: "string option \<Rightarrow> nat load_io" where
  "example_load failure = \<lparr>state_dict = failure, gaussian_predictor = (\<lambda>d. Inr 1)\<rparr>"

definition example_upload :: "session \<Rightarrow> string option \<Rightarrow> (nat, nat) upload_io" where
  "example_upload sid failure =
     \<lparr>decoded = Inr (2, 3), uuid4 = sid, preprocessing = None,
      inference = (\<lambda>p f_px d. Inr 7), tmp_ply = Inr ''/tmp/a.ply'', save_ply = failure\<rparr>"

text \<open>A stand-in for the library's \<open>convert_focallength\<close> in the examples.\<close>

definition example_focallength :: "nat \<Rightarrow> nat \<Rightarrow> real \<Rightarrow> real" where
  "example_focallength w h f_mm = f_mm * real (w + h)"

definition example_render :: "(nat, nat) render_io" where
  "example_render =
     \<lparr>camera_info = None, rendering_output = (\<lambda>g e w h. Inr 5), tempdir = ''/tmp'',
      png_uuid = ''u1'', save_image = None\<rparr>"

definition example_video :: "(nat, nat) video_io" where
  "example_video =
     \<lparr>max_offset = Inr (1, 2), tmp_mp4 = Inr ''/tmp/v.mp4'', video_writer = None,
      compute = (\<lambda>e. None), renderer = (\<lambda>g e. Inr 5), add_frame = (\<lambda>c. None),
      close = None\<rparr>"

section \<open>The rendering loop\<close>

lemma render_frames_length:
  "render_frames io g es acc s = (Inr fs, s') \<Longrightarrow>
     length fs = length acc + length es \<and> renderer_calls s' = renderer_calls s + length es"
  by (induction es arbitrary: acc s) (auto split: option.splits sum.splits simp: Let_def)

lemma render_frames_all_ok:
  assumes "compute io = (\<lambda>e. None)" and "renderer io = (\<lambda>g e. Inr c)"
    and "add_frame io = (\<lambda>c. None)"
  shows "render_frames io g es acc s =
           (Inr (acc @ replicate (length es) c),
            s\<lparr>renderer_calls := renderer_calls s + length es\<rparr>)"
  using assms by (induction es arbitrary: acc s) (simp_all add: Let_def)

lemma length_trajectory: "length (trajectory mo) = 120"
  by (simp add: trajectory_def num_steps_def)

lemma generate_video_ok:
  assumes "status (fst (generate_video sid io s)) = 200"
  shows "\<exists>g mo p frames s'.
           (\<exists>md. gaussian_storage s sid = Some (g, md)) \<and> max_offset io = Inr mo
           \<and> tmp_mp4 io = Inr p
           \<and> render_frames io g (trajectory mo) [] (s\<lparr>files := insert p (files s)\<rparr>)
               = (Inr frames, s')
           \<and> generate_video sid io s
               = (FileResponse p ''video/mp4'', s'\<lparr>videos := (videos s')(p \<mapsto> frames)\<rparr>)"
  using assms
  by (auto simp: generate_video_def Let_def
      split: option.splits sum.splits prod.splits if_splits)

section \<open>What the handlers leave alone\<close>

lemma render_frames_globals:
  "render_frames io g es acc s = (r, s') \<Longrightarrow>
     gaussian_storage s' = gaussian_storage s \<and> ply_storage s' = ply_storage s
     \<and> device s' = device s \<and> predictor s' = predictor s"
  by (induction es arbitrary: acc s) (auto split: option.splits sum.splits simp: Let_def)

lemma render_frames_positions:
  "render_frames io g es acc s = (Inr fs, s') \<Longrightarrow>
     \<exists>new. fs = acc @ new \<and> length new = length es
       \<and> (\<forall>i<length es. renderer io g (es ! i) = Inr (new ! i))"
proof (induction es arbitrary: acc s)
  case Nil
  then show ?case by simp
next
  case (Cons e es)
  from Cons.prems obtain c where c: "renderer io g e = Inr c"
    and rest: "render_frames io g es (acc @ [c]) (s\<lparr>renderer_calls := renderer_calls s + 1\<rparr>)
                 = (Inr fs, s')"
    by (auto split: option.splits sum.splits simp: Let_def)
  from Cons.IH [OF rest] obtain new where new: "fs = (acc @ [c]) @ new" "length new = length es"
    "\<forall>i<length es. renderer io g (es ! i) = Inr (new ! i)"
    by blast
  have "\<forall>i<length (e # es). renderer io g ((e # es) ! i) = Inr ((c # new) ! i)"
    using c new(3) by (auto simp: nth_Cons split: nat.splits)
  with new(1,2) show ?case
    by (intro exI [of _ "c # new"]) simp
qed

lemma render_view_globals:
  "gaussian_storage (snd (render_view sid x y z w h io s)) = gaussian_storage s
   \<and> ply_storage (snd (render_view sid x y z w h io s)) = ply_storage s
   \<and> device (snd (render_view sid x y z w h io s)) = device s
   \<and> predictor (snd (render_view sid x y z w h io s)) = predictor s"
  by (auto simp: render_view_def Let_def split: option.splits sum.splits prod.splits)

lemma generate_video_globals:
  "gaussian_storage (snd (generate_video sid io s)) = gaussian_storage s
   \<and> ply_storage (snd (generate_video sid io s)) = ply_storage s
   \<and> device (snd (generate_video sid io s)) = device s
   \<and> predictor (snd (generate_video sid io s)) = predictor s"
  by (auto simp: generate_video_def Let_def
      split: option.splits sum.splits prod.splits dest: render_frames_globals)

lemma upload_image_globals:
  "device (snd (upload_image cf io s)) = device s
   \<and> predictor (snd (upload_image cf io s)) = predictor s"
  by (auto simp: upload_image_def Let_def split: option.splits sum.splits prod.splits)

lemma upload_image_gaussian_storage:
  "gaussian_storage (snd (upload_image cf io s)) sid \<noteq> None \<Longrightarrow>
     gaussian_storage s sid \<noteq> None \<or> uuid4 io = sid \<and> stores_gaussians cf io s"
  by (auto simp: upload_image_def stores_gaussians_def Let_def
      split: option.splits sum.splits prod.splits if_splits)

lemma upload_image_dom:
  "dom (gaussian_storage s) \<subseteq> dom (gaussian_storage (snd (upload_image cf io s)))
   \<and> dom (ply_storage s) \<subseteq> dom (ply_storage (snd (upload_image cf io s)))"
  by (auto simp: upload_image_def Let_def split: option.splits sum.splits prod.splits)

lemma handle_not_upload:
  "(\<forall>io. r \<noteq> Upload io) \<Longrightarrow>
     gaussian_storage (snd (handle cf r s)) = gaussian_storage s
     \<and> ply_storage (snd (handle cf r s)) = ply_storage s"
  by (cases r)
    (simp_all add: root_def check_system_def get_ply_def render_view_globals
      generate_video_globals split: option.splits)

lemma handle_globals:
  "device (snd (handle cf r s)) = device s \<and> predictor (snd (handle cf r s)) = predictor s"
  by (cases r)
    (simp_all add: root_def check_system_def get_ply_def render_view_globals
      generate_video_globals upload_image_globals split: option.splits)

lemma handle_dom:
  "dom (gaussian_storage s) \<subseteq> dom (gaussian_storage (snd (handle cf r s)))
   \<and> dom (ply_storage s) \<subseteq> dom (ply_storage (snd (handle cf r s)))"
proof (cases "\<exists>io. r = Upload io")
  case True
  then obtain io where "r = Upload io" by blast
  with upload_image_dom [of s cf io] show ?thesis by simp
next
  case False
  then show ?thesis using handle_not_upload [of r cf s] by simp
qed

lemma run_Cons:
  "run cf (r # rs) s =
     (fst (handle cf r s) # fst (run cf rs (snd (handle cf r s))),
      snd (run cf rs (snd (handle cf r s))))"
  by (simp split: prod.splits)

lemma run_dom:
  "dom (gaussian_storage s) \<subseteq> dom (gaussian_storage (snd (run cf rs s)))
   \<and> dom (ply_storage s) \<subseteq> dom (ply_storage (snd (run cf rs s)))"
proof (induction rs arbitrary: s)
  case Nil
  then show ?case by simp
next
  case (Cons r rs)
  from handle_dom [of s cf r] Cons.IH [of "snd (handle cf r s)"]
  show ?case unfolding run_Cons by (simp only: snd_conv) blast
qed

lemma t_of_bounds: "i < 120 \<Longrightarrow> - (1/4) \<le> t_of i \<and> t_of i \<le> 1/4"
  by (simp add: t_of_def num_steps_def field_simps)

section \<open>Runs of requests\<close>

lemma stores_gaussians_cong:
  assumes "device s' = device s" and "predictor s' = predictor s"
  shows "stores_gaussians cf io s' = stores_gaussians cf io s"
  unfolding stores_gaussians_def assms by (rule refl)

lemma handle_gaussian_storage:
  assumes "gaussian_storage (snd (handle cf r s)) sid \<noteq> None"
  shows "gaussian_storage s sid \<noteq> None
       \<or> (\<exists>io. r = Upload io \<and> uuid4 io = sid \<and> stores_gaussians cf io s)"
proof (cases "\<exists>io. r = Upload io")
  case True
  then obtain io where "r = Upload io" by blast
  with assms upload_image_gaussian_storage [of cf io s sid] show ?thesis by auto
next
  case False
  with assms handle_not_upload [of r cf s] show ?thesis by simp
qed

lemma run_globals:
  "device (snd (run cf rs s)) = device s \<and> predictor (snd (run cf rs s)) = predictor s"
proof (induction rs arbitrary: s)
  case Nil
  then show ?case by simp
next
  case (Cons r rs)
  from Cons.IH [of "snd (handle cf r s)"] handle_globals [of cf r s]
  show ?case unfolding run_Cons by simp
qed

lemma uploads_Cons:
  "set (uploads (r # rs)) = (case r of Upload io \<Rightarrow> insert io (set (uploads rs)) | _ \<Rightarrow> set (uploads rs))"
  by (cases r) simp_all

lemma run_gaussian_storage:
  "gaussian_storage (snd (run cf rs s)) sid \<noteq> None \<Longrightarrow>
     gaussian_storage s sid \<noteq> None
     \<or> (\<exists>io \<in> set (uploads rs). uuid4 io = sid \<and> stores_gaussians cf io s)"
proof (induction rs arbitrary: s)
  case Nil
  then show ?case by simp
next
  case (Cons r rs)
  let ?s1 = "snd (handle cf r s)"
  from Cons.prems have "gaussian_storage (snd (run cf rs ?s1)) sid \<noteq> None"
    unfolding run_Cons by simp
  from Cons.IH [OF this]
  consider "gaussian_storage ?s1 sid \<noteq> None"
    | io where "io \<in> set (uploads rs)" "uuid4 io = sid" "stores_gaussians cf io ?s1"
    by blast
  then show ?case
  proof cases
    case 1
    from handle_gaussian_storage [OF 1] show ?thesis
      by (auto simp: uploads_Cons)
  next
    case 2
    from 2(3) handle_globals [of cf r s] have "stores_gaussians cf io s"
      by (simp add: stores_gaussians_cong [of ?s1 s])
    with 2(1,2) show ?thesis
      by (auto simp: uploads_Cons split: request.splits)
  qed
qed

lemma not_404_stored:
  "status (fst (render_view sid x y z w h rio s)) \<noteq> 404
   \<or> status (fst (generate_video sid vio s)) \<noteq> 404 \<Longrightarrow> gaussian_storage s sid \<noteq> None"
  by (cases "gaussian_storage s sid") (auto simp: render_view_def generate_video_def)

lemma unknown_session_404:
  "gaussian_storage s sid = None \<Longrightarrow>
     render_view sid x y z w h rio s = (HTTPException 404 ''Session not found'', s)
     \<and> generate_video sid vio s = (HTTPException 404 ''Session not found'', s)"
  by (simp add: render_view_def generate_video_def)

lemma uploads_append: "uploads (rs @ rs') = uploads rs @ uploads rs'"
  by (induction rs rule: uploads.induct) simp_all

lemma run_append:
  "run cf (rs @ rs') s =
     (fst (run cf rs s) @ fst (run cf rs' (snd (run cf rs s))),
      snd (run cf rs' (snd (run cf rs s))))"
  by (induction rs arbitrary: s) (simp_all add: run_Cons del: run.simps(2))

lemma handle_json:
  "fst (handle cf r s) = JSONResponse j \<Longrightarrow> \<exists>io. r = Upload io"
  by (cases r)
    (auto simp: root_def check_system_def get_ply_def render_view_def generate_video_def Let_def
      split: option.splits sum.splits prod.splits if_splits)

lemma upload_image_json:
  assumes "upload_image cf io s = (JSONResponse j, s')"
  shows "session_id j = uuid4 io \<and> decoded io = Inr (height j, width j)
       \<and> focal_length j = cf (width j) (height j) 30
       \<and> ply_path j = ''/api/ply/'' @ session_id j
       \<and> (\<exists>p. tmp_ply io = Inr p \<and> ply_storage s' (uuid4 io) = Some p \<and> p \<in> files s')"
  using assms
  by (auto simp: upload_image_def Let_def split: option.splits sum.splits prod.splits)

lemma returned_ids_Cons:
  "set (returned_ids (a # as)) =
     (case a of JSONResponse j \<Rightarrow> insert (session_id j) (set (returned_ids as))
      | _ \<Rightarrow> set (returned_ids as))"
  by (cases a) simp_all

lemma returned_ids_uploads:
  "set (returned_ids (fst (run cf rs s))) \<subseteq> uuid4 ` set (uploads rs)"
proof (induction rs arbitrary: s)
  case Nil
  then show ?case by simp
next
  case (Cons r rs)
  let ?s1 = "snd (handle cf r s)"
  note IH = Cons.IH [of ?s1]
  show ?case
  proof (cases "\<exists>j. fst (handle cf r s) = JSONResponse j")
    case True
    then obtain j where j: "fst (handle cf r s) = JSONResponse j" by blast
    from handle_json [OF j] obtain io where r: "r = Upload io" by blast
    from j r have "upload_image cf io s = (JSONResponse j, snd (upload_image cf io s))"
      by (simp add: prod_eq_iff)
    from upload_image_json [OF this] have "session_id j = uuid4 io" by blast
    with IH j r show ?thesis
      unfolding run_Cons by (auto simp: returned_ids_Cons)
  next
    case False
    with IH show ?thesis
      unfolding run_Cons
      by (auto simp: returned_ids_Cons uploads_Cons split: response.splits request.splits)
  qed
qed

section \<open>Unknown sessions and missing CUDA\<close>

text \<open>
  C1, as amended. Start from empty stores and run any requests. A session id that
  /api/render or /api/generate-video then accepts (does not answer with 404) is the id
  drawn by an earlier upload of the run whose image decoded, whose device was set and
  whose prediction returned, so that the upload reached the line that stores the
  Gaussians; that upload may then have failed with 500 while exporting the PLY file.
  An id that is not in the gaussian store is answered 404 by both handlers, with the
  state and the count of renderer calls unchanged.
\<close>

theorem accepted_sessions_were_stored:
  assumes "gaussian_storage s0 = Map.empty" and "run cf rs s0 = (answers, s)"
  shows "(status (fst (render_view sid x y z w h rio s)) \<noteq> 404
          \<or> status (fst (generate_video sid vio s)) \<noteq> 404
         \<longrightarrow> (\<exists>io \<in> set (uploads rs). uuid4 io = sid \<and> stores_gaussians cf io s0))
       \<and> (gaussian_storage s sid = None
         \<longrightarrow> render_view sid x y z w h rio s = (HTTPException 404 ''Session not found'', s)
           \<and> generate_video sid vio s = (HTTPException 404 ''Session not found'', s)
           \<and> renderer_calls (snd (render_view sid x y z w h rio s)) = renderer_calls s
           \<and> renderer_calls (snd (generate_video sid vio s)) = renderer_calls s)"
proof (intro conjI impI)
  assume "status (fst (render_view sid x y z w h rio s)) \<noteq> 404
          \<or> status (fst (generate_video sid vio s)) \<noteq> 404"
  then have "gaussian_storage s sid \<noteq> None"
    by (rule not_404_stored)
  with assms(2) have "gaussian_storage (snd (run cf rs s0)) sid \<noteq> None"
    by simp
  from run_gaussian_storage [OF this] assms(1)
  show "\<exists>io \<in> set (uploads rs). uuid4 io = sid \<and> stores_gaussians cf io s0"
    by simp
next
  assume unknown: "gaussian_storage s sid = None"
  show "render_view sid x y z w h rio s = (HTTPException 404 ''Session not found'', s)"
    and "generate_video sid vio s = (HTTPException 404 ''Session not found'', s)"
    and "renderer_calls (snd (render_view sid x y z w h rio s)) = renderer_calls s"
    and "renderer_calls (snd (generate_video sid vio s)) = renderer_calls s"
    using unknown_session_404 [OF unknown, of x y z w h rio vio] by simp_all
qed

theorem accepted_sessions_were_stored_witness:
  "dom (gaussian_storage example_server) = {}
   \<and> status (fst (render_view ''s1'' 0 0 0 800 600 example_render
        (snd (run example_focallength [Upload (example_upload ''s1'' None)] example_server)))) = 503
   \<and> (\<exists>io \<in> set (uploads ([Upload (example_upload ''s1'' None)] :: (nat, nat, nat) request list)).
         uuid4 io = ''s1'' \<and> stores_gaussians example_focallength io example_server)"
proof -
  let ?rs = "[Upload (example_upload ''s1'' None)] :: (nat, nat, nat) request list"
  let ?run = "run example_focallength ?rs example_server"
  have empty: "gaussian_storage example_server = Map.empty"
    by (simp add: example_server_def)
  have run: "?run = (fst ?run, snd ?run)"
    by simp
  have up: "snd (upload_image example_focallength (example_upload ''s1'' None) example_server) =
       example_server\<lparr>gaussian_storage :=
               [''s1'' \<mapsto> (7, \<lparr>focal_length_px = example_focallength 3 2 30,
                                     resolution_px = (3, 2), color_space = ''linearRGB''\<rparr>)],
            files := {''/tmp/a.ply''}, ply_storage := [''s1'' \<mapsto> ''/tmp/a.ply'']\<rparr>"
    by (simp add: upload_image_def example_upload_def example_server_def predict_image_def Let_def)
  have unavailable: "status (fst (render_view ''s1'' 0 0 0 800 600 example_render (snd ?run))) = 503"
    by (simp add: run_Cons up del: run.simps(2)) (simp add: render_view_def example_server_def)
  then have "status (fst (render_view ''s1'' 0 0 0 800 600 example_render (snd ?run))) \<noteq> 404"
    by simp
  with accepted_sessions_were_stored [OF empty run, of "''s1''" 0 0 0 800 600 example_render
      example_video]
  have "\<exists>io \<in> set (uploads ?rs). uuid4 io = ''s1''
          \<and> stores_gaussians example_focallength io example_server"
    by blast
  with empty unavailable show ?thesis
    by simp
qed

text \<open>
  The claim C1 as stated asks for a successful upload. It fails on a server with CUDA
  whose only upload raised in \<open>save_ply\<close>: the upload answered 500, no session id
  was ever given out, and /api/render serves the session \<open>s1\<close>.
\<close>

theorem accepted_session_of_failed_upload:
  "dom (gaussian_storage (example_server\<lparr>cuda_available := True\<rparr>)) = {}
   \<and> fst (run example_focallength [Upload (example_upload ''s1'' (Some ''disk full''))]
            (example_server\<lparr>cuda_available := True\<rparr>))
       = [HTTPException 500 ''disk full'']
   \<and> returned_ids (fst (run example_focallength [Upload (example_upload ''s1'' (Some ''disk full''))]
            (example_server\<lparr>cuda_available := True\<rparr>))) = []
   \<and> fst (render_view ''s1'' 0 0 0 800 600 example_render
            (snd (run example_focallength [Upload (example_upload ''s1'' (Some ''disk full''))]
               (example_server\<lparr>cuda_available := True\<rparr>))))
       = FileResponse ''/tmp/sharp_render_u1.png'' ''image/png''"
proof -
  let ?s0 = "example_server\<lparr>cuda_available := True\<rparr>"
  let ?io = "example_upload ''s1'' (Some ''disk full'')"
  have up: "upload_image example_focallength ?io ?s0 =
      (HTTPException 500 ''disk full'',
       ?s0\<lparr>gaussian_storage :=
               [''s1'' \<mapsto> (7, \<lparr>focal_length_px = example_focallength 3 2 30,
                                     resolution_px = (3, 2), color_space = ''linearRGB''\<rparr>)],
            files := {''/tmp/a.ply''}\<rparr>)"
    by (simp add: upload_image_def example_upload_def example_server_def predict_image_def Let_def)
  have empty: "dom (gaussian_storage ?s0) = {}"
    by (simp add: example_server_def)
  have render: "fst (render_view ''s1'' 0 0 0 800 600 example_render
            (?s0\<lparr>gaussian_storage :=
               [''s1'' \<mapsto> (7, \<lparr>focal_length_px = example_focallength 3 2 30,
                                     resolution_px = (3, 2), color_space = ''linearRGB''\<rparr>)],
                 files := {''/tmp/a.ply''}\<rparr>))
       = FileResponse ''/tmp/sharp_render_u1.png'' ''image/png''"
    by (simp add: render_view_def example_render_def example_server_def Let_def)
  from empty render show ?thesis
    by (simp add: up)
qed


text \<open>
  C2. A request to /api/render whose session id is not in the gaussian store is answered
  404, and the state is left as it was. The session check comes before the check for
  CUDA: the answer is the same on a machine without CUDA.
\<close>

theorem render_view_unknown_session:
  assumes "gaussian_storage s sid = None"
  shows "render_view sid eye_x eye_y eye_z w h io s = (HTTPException 404 ''Session not found'', s)
       \<and> fst (render_view sid eye_x eye_y eye_z w h io (s\<lparr>cuda_available := False\<rparr>))
           = HTTPException 404 ''Session not found''"
  using assms by (simp add: render_view_def)

theorem render_view_unknown_session_witness:
  "gaussian_storage example_server ''s1'' = None
   \<and> \<not> cuda_available example_server
   \<and> render_view ''s1'' 0 0 0 800 600 example_render example_server
       = (HTTPException 404 ''Session not found'', example_server)"
  using render_view_unknown_session [of example_server "''s1''" 0 0 0 800 600 example_render]
  by (simp add: example_server_def)

text \<open>
  C3. For a stored session on a machine without CUDA, /api/render and
  /api/generate-video both answer 503 and leave the whole state as it was, the count of
  renderer calls included. Nothing is asked of \<open>device\<close>: a CPU or Metal device does not
  stand in for CUDA.
\<close>

theorem no_cuda_unavailable:
  assumes "gaussian_storage s sid = Some gm" and "\<not> cuda_available s"
  shows "render_view sid eye_x eye_y eye_z w h rio s =
           (HTTPException 503
              ''Rendering requires CUDA GPU. Server-side rendering is not available on this system.'', s)
       \<and> generate_video sid vio s =
           (HTTPException 503
              ''Video generation requires CUDA. Server-side rendering is not available on this system.'', s)"
  using assms by (cases gm) (simp add: render_view_def generate_video_def)

theorem no_cuda_unavailable_witness:
  "gaussian_storage (example_stored False) ''s1'' \<noteq> None
   \<and> \<not> cuda_available (example_stored False)
   \<and> device (example_stored False) = Some Cpu
   \<and> status (fst (render_view ''s1'' 0 0 0 800 600 example_render (example_stored False))) = 503
   \<and> status (fst (generate_video ''s1'' example_video (example_stored False))) = 503
   \<and> renderer_calls (snd (generate_video ''s1'' example_video (example_stored False))) = 0"
  using no_cuda_unavailable [of "example_stored False" "''s1''" _ 0 0 0 800 600
      example_render example_video]
  by (simp add: example_stored_def)

section \<open>The video\<close>

text \<open>
  C4. Every /api/generate-video request that succeeds answers with a video file that
  holds exactly 120 frames, one renderer call and one added frame per step of the
  trajectory, whatever resolution the session's metadata holds. The handler's only
  request parameter is the session id.
\<close>

theorem generate_video_frame_count:
  assumes "status (fst (generate_video sid io s)) = 200"
  shows "\<exists>p frames. fst (generate_video sid io s) = FileResponse p ''video/mp4''
           \<and> videos (snd (generate_video sid io s)) p = Some frames
           \<and> length frames = 120
           \<and> renderer_calls (snd (generate_video sid io s)) = renderer_calls s + 120"
proof -
  from generate_video_ok [OF assms] obtain g mo p frames s' where
    frames: "render_frames io g (trajectory mo) [] (s\<lparr>files := insert p (files s)\<rparr>)
               = (Inr frames, s')"
    and answer: "generate_video sid io s
               = (FileResponse p ''video/mp4'', s'\<lparr>videos := (videos s')(p \<mapsto> frames)\<rparr>)"
    by blast
  from render_frames_length [OF frames]
  have "length frames = 120" and "renderer_calls s' = renderer_calls s + 120"
    by (simp_all add: length_trajectory)
  with answer show ?thesis by simp
qed

theorem generate_video_frame_count_witness:
  "status (fst (generate_video ''s1'' example_video (example_stored True))) = 200
   \<and> (\<exists>p frames.
         fst (generate_video ''s1'' example_video (example_stored True))
           = FileResponse p ''video/mp4''
         \<and> videos (snd (generate_video ''s1'' example_video (example_stored True))) p = Some frames
         \<and> length frames = 120
         \<and> renderer_calls (snd (generate_video ''s1'' example_video (example_stored True))) = 120)"
proof -
  have frames: "render_frames example_video g es acc s =
      (Inr (acc @ replicate (length es) 5), s\<lparr>renderer_calls := renderer_calls s + length es\<rparr>)"
    for g es acc and s :: "(nat, nat, nat) server"
    by (rule render_frames_all_ok) (simp_all add: example_video_def)
  have calls: "max_offset example_video = Inr (1, 2)" "tmp_mp4 example_video = Inr ''/tmp/v.mp4''"
    "video_writer example_video = None" "close example_video = None"
    by (simp_all add: example_video_def)
  have ok: "status (fst (generate_video ''s1'' example_video (example_stored True))) = 200"
    by (simp add: generate_video_def example_stored_def frames calls)
  have "renderer_calls (example_stored True) = 0"
    by (simp add: example_stored_def)
  with generate_video_frame_count [OF ok] ok show ?thesis
    by simp
qed

text \<open>
  C5. The trajectory of the video handler has 120 positions. For every step index
  \<open>i\<close> in 0..119 the position is
  \<open>(max_offset_x * sin(2 pi t_i), max_offset_y * cos(2 pi t_i), 0)\<close> with
  \<open>t_i = (i/119 - 0.5) * 0.5\<close>; \<open>t_i\<close> stays within \<open>[-0.25, 0.25]\<close> and takes both
  ends, at the first and the last step. A video that succeeds holds, as frame \<open>i\<close>,
  the renderer's output at position \<open>i\<close>. (Real arithmetic: the rounding of the floats
  is not modelled.)
\<close>

theorem trajectory_arc:
  "length (trajectory mo) = 120
   \<and> t_of 0 = - (1/4) \<and> t_of 119 = 1/4
   \<and> (\<forall>i<120.
         trajectory mo ! i
           = (fst mo * sin (2 * pi * t_of i), snd mo * cos (2 * pi * t_of i), 0)
         \<and> t_of i = (real i / 119 - 1/2) * (1/2)
         \<and> - (1/4) \<le> t_of i \<and> t_of i \<le> 1/4)
   \<and> (status (fst (generate_video sid io s)) = 200 \<longrightarrow>
        (\<exists>g mo' p frames.
           (\<exists>md. gaussian_storage s sid = Some (g, md)) \<and> max_offset io = Inr mo'
           \<and> fst (generate_video sid io s) = FileResponse p ''video/mp4''
           \<and> videos (snd (generate_video sid io s)) p = Some frames
           \<and> (\<forall>i<120. renderer io g (trajectory mo' ! i) = Inr (frames ! i))))"
proof -
  have ends: "t_of 0 = - (1/4)" "t_of 119 = 1/4"
    by (simp_all add: t_of_def num_steps_def)
  have steps: "\<forall>i<120.
         trajectory mo ! i
           = (fst mo * sin (2 * pi * t_of i), snd mo * cos (2 * pi * t_of i), 0)
         \<and> t_of i = (real i / 119 - 1/2) * (1/2)
         \<and> - (1/4) \<le> t_of i \<and> t_of i \<le> 1/4"
  proof (intro allI impI)
    fix i :: nat
    assume i: "i < 120"
    have "trajectory mo ! i
           = (fst mo * sin (2 * pi * t_of i), snd mo * cos (2 * pi * t_of i), 0)"
      using i by (simp add: trajectory_def num_steps_def eye_at_def)
    moreover have "t_of i = (real i / 119 - 1/2) * (1/2)"
      by (simp add: t_of_def num_steps_def)
    ultimately show "trajectory mo ! i
           = (fst mo * sin (2 * pi * t_of i), snd mo * cos (2 * pi * t_of i), 0)
         \<and> t_of i = (real i / 119 - 1/2) * (1/2)
         \<and> - (1/4) \<le> t_of i \<and> t_of i \<le> 1/4"
      using t_of_bounds [OF i] by blast
  qed
  have video: "\<exists>g mo' p frames.
           (\<exists>md. gaussian_storage s sid = Some (g, md)) \<and> max_offset io = Inr mo'
           \<and> fst (generate_video sid io s) = FileResponse p ''video/mp4''
           \<and> videos (snd (generate_video sid io s)) p = Some frames
           \<and> (\<forall>i<120. renderer io g (trajectory mo' ! i) = Inr (frames ! i))"
    if ok: "status (fst (generate_video sid io s)) = 200"
  proof -
    from generate_video_ok [OF ok] obtain g mo' p frames s' where
      g: "\<exists>md. gaussian_storage s sid = Some (g, md)" and mo': "max_offset io = Inr mo'"
      and frames: "render_frames io g (trajectory mo') [] (s\<lparr>files := insert p (files s)\<rparr>)
               = (Inr frames, s')"
      and answer: "generate_video sid io s
               = (FileResponse p ''video/mp4'', s'\<lparr>videos := (videos s')(p \<mapsto> frames)\<rparr>)"
      by blast
    from render_frames_positions [OF frames]
    have "\<forall>i<120. renderer io g (trajectory mo' ! i) = Inr (frames ! i)"
      by (simp add: length_trajectory)
    with g mo' answer show ?thesis by auto
  qed
  from ends steps video length_trajectory [of mo] show ?thesis
    by blast
qed

theorem trajectory_arc_witness:
  "(0::nat) < 120
   \<and> trajectory (2, 3) ! 0 = (2 * sin (2 * pi * t_of 0), 3 * cos (2 * pi * t_of 0), 0)
   \<and> t_of 0 = - (1/4)
   \<and> trajectory (2, 3) ! 0 = (- 2, 0, 0)"
proof -
  from trajectory_arc [of "(2, 3)" "''s1''" example_video "example_stored True"]
  have steps: "\<forall>i<120.
         trajectory (2, 3) ! i
           = (fst (2, 3 :: real) * sin (2 * pi * t_of i),
              snd (2 :: real, 3) * cos (2 * pi * t_of i), 0)
         \<and> t_of i = (real i / 119 - 1/2) * (1/2)
         \<and> - (1/4) \<le> t_of i \<and> t_of i \<le> 1/4"
    and t0: "t_of 0 = - (1/4)"
    by blast+
  from steps [rule_format, of 0]
  have step: "trajectory (2, 3) ! 0 = (2 * sin (2 * pi * t_of 0), 3 * cos (2 * pi * t_of 0), 0)"
    by simp
  have "2 * pi * (- (1/4)) = - (pi / 2)" by simp
  then have "sin (2 * pi * t_of 0) = - 1" "cos (2 * pi * t_of 0) = 0"
    unfolding t0 by simp_all
  with step t0 show ?thesis by simp
qed

section \<open>PLY retrieval\<close>

text \<open>
  C7. /api/ply/{session_id} only looks up: the state after it is the state before it.
  It answers 404 exactly when the id is not in the PLY store or the stored path is not a
  file on disk, and otherwise it answers with the stored file.
\<close>

theorem get_ply_lookup:
  "snd (get_ply sid s) = s
   \<and> (status (fst (get_ply sid s)) = 404 \<longleftrightarrow>
        (ply_storage s sid = None \<or> (\<exists>p. ply_storage s sid = Some p \<and> p \<notin> files s)))
   \<and> (\<forall>p. ply_storage s sid = Some p \<and> p \<in> files s \<longrightarrow>
        fst (get_ply sid s) = FileResponse p ''application/octet-stream'')"
  by (auto simp: get_ply_def split: option.splits)

theorem get_ply_lookup_witness:
  "ply_storage (example_stored False) ''s1'' = Some ''/tmp/a.ply''
   \<and> ''/tmp/a.ply'' \<in> files (example_stored False)
   \<and> (fst (get_ply ''s1'' (example_stored False)) :: response)
       = FileResponse ''/tmp/a.ply'' ''application/octet-stream''
   \<and> ply_storage (example_stored False) ''s2'' = None
   \<and> status (fst (get_ply ''s2'' (example_stored False)) :: response) = 404"
proof -
  have stored: "ply_storage (example_stored False) ''s1'' = Some ''/tmp/a.ply''"
    and on_disk: "''/tmp/a.ply'' \<in> files (example_stored False)"
    and unknown: "ply_storage (example_stored False) ''s2'' = None"
    by (simp_all add: example_stored_def)
  from get_ply_lookup [of "''s1''" "example_stored False"] stored on_disk
  have "(fst (get_ply ''s1'' (example_stored False)) :: response)
          = FileResponse ''/tmp/a.ply'' ''application/octet-stream''"
    by blast
  moreover from get_ply_lookup [of "''s2''" "example_stored False"] unknown
  have "status (fst (get_ply ''s2'' (example_stored False)) :: response) = 404"
    by blast
  ultimately show ?thesis using stored on_disk unknown by blast
qed

section \<open>Model loader\<close>

text \<open>
  C8. \<open>load_model\<close> is idempotent. With a predictor resident it returns at once and
  changes nothing: not the predictor, not the device, not the count of downloads. So a
  call after a successful one is a no-op. When no predictor is resident and the download
  of the checkpoint, or the building of the predictor from it, raises, the exception
  leaves \<open>load_model\<close> and the startup event with it; the download was tried once and
  no predictor is resident.
\<close>

theorem load_model_idempotent:
  "(predictor s \<noteq> None \<longrightarrow> load_model io s = (Inr (), s))
   \<and> (fst (load_model io s) = Inr () \<longrightarrow>
        load_model io' (snd (load_model io s)) = (Inr (), snd (load_model io s)))
   \<and> (predictor s = None \<and>
        (state_dict io = Some e \<or> state_dict io = None \<and> gaussian_predictor io (get_device s) = Inl e)
      \<longrightarrow> fst (startup_event io s) = Inl e
          \<and> predictor (snd (startup_event io s)) = None
          \<and> hub_downloads (snd (startup_event io s)) = hub_downloads s + 1)"
  by (auto simp: load_model_def startup_event_def Let_def split: option.splits sum.splits)

theorem load_model_idempotent_witness:
  "predictor example_server \<noteq> None
   \<and> load_model (example_load (Some ''timed out'')) example_server = (Inr (), example_server)
   \<and> predictor (example_server\<lparr>predictor := None\<rparr>) = None
   \<and> fst (startup_event (example_load (Some ''timed out'')) (example_server\<lparr>predictor := None\<rparr>))
       = Inl ''timed out''
   \<and> hub_downloads (snd (startup_event (example_load (Some ''timed out''))
        (example_server\<lparr>predictor := None\<rparr>))) = 2"
  using load_model_idempotent [of example_server "example_load (Some ''timed out'')"]
    load_model_idempotent [of "example_server\<lparr>predictor := None\<rparr>"
      "example_load (Some ''timed out'')" _ "''timed out''"]
  by (simp add: example_server_def example_load_def)

section \<open>Upload\<close>

text \<open>
  C6, as amended. Take any run of requests that ends with an upload answered by the
  JSON response. The session id of the response is the one that \<open>uuid4\<close> drew for this
  upload. It was returned by no earlier upload of the run whenever no earlier upload
  drew the same id: the handler stores under the drawn id without looking at the keys
  already there. Width and height are those of the decoded image; the focal length is
  \<open>convert_focallength(width, height, 30.0)\<close>; the retrieval path is
  \<open>/api/ply/{session_id}\<close>; and /api/ply for that id, asked right after, answers with
  the exported file: the id is in the PLY store and its file is on disk.
\<close>

theorem upload_image_success:
  assumes "run cf (rs @ [Upload io]) s0 = (answers, s)"
    and "last answers = JSONResponse j"
  shows "session_id j = uuid4 io
       \<and> (uuid4 io \<notin> uuid4 ` set (uploads rs)
            \<longrightarrow> session_id j \<notin> set (returned_ids (butlast answers)))
       \<and> decoded io = Inr (height j, width j)
       \<and> focal_length j = cf (width j) (height j) 30
       \<and> ply_path j = ''/api/ply/'' @ session_id j
       \<and> (\<exists>p. ply_storage s (session_id j) = Some p \<and> p \<in> files s
              \<and> get_ply (session_id j) s = (FileResponse p ''application/octet-stream'', s))"
proof -
  let ?s1 = "snd (run cf rs s0)"
  from assms(1) have answers: "answers = fst (run cf rs s0) @ [fst (upload_image cf io ?s1)]"
    and s: "s = snd (upload_image cf io ?s1)"
    by (simp_all add: run_append run_Cons del: run.simps(2))
  from answers assms(2) have "fst (upload_image cf io ?s1) = JSONResponse j"
    by simp
  with s have "upload_image cf io ?s1 = (JSONResponse j, s)"
    by (simp add: prod_eq_iff)
  from upload_image_json [OF this] obtain p where
    json: "session_id j = uuid4 io" "decoded io = Inr (height j, width j)"
      "focal_length j = cf (width j) (height j) 30" "ply_path j = ''/api/ply/'' @ session_id j"
    and p: "ply_storage s (uuid4 io) = Some p" "p \<in> files s"
    by blast
  have fresh: "session_id j \<notin> set (returned_ids (butlast answers))"
    if "uuid4 io \<notin> uuid4 ` set (uploads rs)"
    using that returned_ids_uploads [of cf rs s0] answers json(1) by auto
  from p json(1)
  have "get_ply (session_id j) s = (FileResponse p ''application/octet-stream'', s)"
    by (simp add: get_ply_def)
  with fresh json p show ?thesis by auto
qed

theorem upload_image_success_witness:
  "uuid4 (example_upload ''s1'' None :: (nat, nat) upload_io)
     \<notin> uuid4 ` set (uploads ([Upload (example_upload ''s0'' None)] :: (nat, nat, nat) request list))
   \<and> fst (run example_focallength
        ([Upload (example_upload ''s0'' None)] @ [Upload (example_upload ''s1'' None)])
        example_server)
       = [JSONResponse \<lparr>session_id = ''s0'', width = 3, height = 2,
                         focal_length = example_focallength 3 2 30, ply_path = ''/api/ply/s0''\<rparr>,
          JSONResponse \<lparr>session_id = ''s1'', width = 3, height = 2,
                         focal_length = example_focallength 3 2 30, ply_path = ''/api/ply/s1''\<rparr>]
   \<and> ''s1'' \<notin> set (returned_ids (butlast (fst (run example_focallength
        ([Upload (example_upload ''s0'' None)] @ [Upload (example_upload ''s1'' None)])
        example_server))))
   \<and> fst (get_ply ''s1'' (snd (run example_focallength
        ([Upload (example_upload ''s0'' None)] @ [Upload (example_upload ''s1'' None)])
        example_server)))
       = FileResponse ''/tmp/a.ply'' ''application/octet-stream''"
proof -
  let ?rs = "[Upload (example_upload ''s0'' None)] :: (nat, nat, nat) request list"
  let ?io = "example_upload ''s1'' None :: (nat, nat) upload_io"
  let ?run = "run example_focallength (?rs @ [Upload ?io]) example_server"
  let ?j0 = "\<lparr>session_id = ''s0'', width = 3, height = 2,
              focal_length = example_focallength 3 2 30, ply_path = ''/api/ply/s0''\<rparr>"
  let ?j1 = "\<lparr>session_id = ''s1'', width = 3, height = 2,
              focal_length = example_focallength 3 2 30, ply_path = ''/api/ply/s1''\<rparr>"
  have run: "?run = (fst ?run, snd ?run)"
    by simp
  have new_id: "uuid4 ?io \<notin> uuid4 ` set (uploads ?rs)"
    by (simp add: example_upload_def)
  have up: "fst (upload_image example_focallength (example_upload sid None) s) =
      JSONResponse \<lparr>session_id = sid, width = 3, height = 2,
                     focal_length = example_focallength 3 2 30, ply_path = ''/api/ply/'' @ sid\<rparr>"
    if "device s = Some Cpu" "predictor s = Some 0" for sid and s :: "(nat, nat, nat) server"
    using that
    by (simp add: upload_image_def example_upload_def predict_image_def Let_def)
  have started: "device example_server = Some Cpu" "predictor example_server = Some 0"
    by (simp_all add: example_server_def)
  have answers: "fst ?run = [JSONResponse ?j0, JSONResponse ?j1]"
    by (simp add: run_Cons up started upload_image_globals del: run.simps(2))
  then have last: "last (fst ?run) = JSONResponse ?j1"
    by simp
  note success = upload_image_success [OF run last]
  from success new_id have "session_id ?j1 \<notin> set (returned_ids (butlast (fst ?run)))"
    by blast
  then have fresh: "''s1'' \<notin> set (returned_ids (butlast (fst ?run)))"
    by simp
  from success
  have "\<exists>p. ply_storage (snd ?run) (session_id ?j1) = Some p \<and> p \<in> files (snd ?run)
          \<and> get_ply (session_id ?j1) (snd ?run)
              = (FileResponse p ''application/octet-stream'', snd ?run)"
    by blast
  then have served: "\<exists>p. ply_storage (snd ?run) ''s1'' = Some p
          \<and> get_ply ''s1'' (snd ?run) = (FileResponse p ''application/octet-stream'', snd ?run)"
    by auto
  have stored: "ply_storage (snd ?run) ''s1'' = Some ''/tmp/a.ply''"
    by (simp add: run_Cons upload_image_def example_upload_def example_server_def predict_image_def
        Let_def del: run.simps(2))
  with served
  have "fst (get_ply ''s1'' (snd ?run)) = FileResponse ''/tmp/a.ply'' ''application/octet-stream''"
    by auto
  with new_id answers fresh show ?thesis
    by simp
qed

text \<open>
  The claim C6 as stated promises an id that no earlier upload returned. Nothing in the
  handler makes it so: when \<open>uuid4\<close> draws \<open>s1\<close> for two uploads, both succeed and
  both answer with \<open>s1\<close>.
\<close>

theorem upload_image_repeated_uuid:
  "fst (run example_focallength
        [Upload (example_upload ''s1'' None), Upload (example_upload ''s1'' None)]
        example_server)
       = [JSONResponse \<lparr>session_id = ''s1'', width = 3, height = 2,
                         focal_length = example_focallength 3 2 30, ply_path = ''/api/ply/s1''\<rparr>,
          JSONResponse \<lparr>session_id = ''s1'', width = 3, height = 2,
                         focal_length = example_focallength 3 2 30, ply_path = ''/api/ply/s1''\<rparr>]
   \<and> ''s1'' \<in> set (returned_ids (butlast (fst (run example_focallength
              [Upload (example_upload ''s1'' None), Upload (example_upload ''s1'' None)]
              example_server))))"
proof -
  have up: "fst (upload_image example_focallength (example_upload sid None) s) =
      JSONResponse \<lparr>session_id = sid, width = 3, height = 2,
                     focal_length = example_focallength 3 2 30, ply_path = ''/api/ply/'' @ sid\<rparr>"
    if "device s = Some Cpu" "predictor s = Some 0" for sid and s :: "(nat, nat, nat) server"
    using that
    by (simp add: upload_image_def example_upload_def predict_image_def Let_def)
  have started: "device example_server = Some Cpu" "predictor example_server = Some 0"
    by (simp_all add: example_server_def)
  have answers: "fst (run example_focallength
        [Upload (example_upload ''s1'' None), Upload (example_upload ''s1'' None)]
        example_server)
       = [JSONResponse \<lparr>session_id = ''s1'', width = 3, height = 2,
                         focal_length = example_focallength 3 2 30, ply_path = ''/api/ply/s1''\<rparr>,
          JSONResponse \<lparr>session_id = ''s1'', width = 3, height = 2,
                         focal_length = example_focallength 3 2 30, ply_path = ''/api/ply/s1''\<rparr>]"
    by (simp add: run_Cons up started upload_image_globals del: run.simps(2))
  show ?thesis
    unfolding answers by simp
qed

section \<open>The session stores\<close>

text \<open>
  C9. Neither /api/render nor /api/generate-video changes the gaussian store or the PLY
  store, whether the request succeeds or fails. The same holds of every request that is
  not an upload, and over any run of requests no key leaves either store.
\<close>

theorem render_and_video_keep_stores:
  "gaussian_storage (snd (render_view sid x y z w h rio s)) = gaussian_storage s
   \<and> ply_storage (snd (render_view sid x y z w h rio s)) = ply_storage s
   \<and> gaussian_storage (snd (generate_video sid vio s)) = gaussian_storage s
   \<and> ply_storage (snd (generate_video sid vio s)) = ply_storage s
   \<and> ((\<forall>io. r \<noteq> Upload io) \<longrightarrow>
        gaussian_storage (snd (handle cf r s)) = gaussian_storage s
        \<and> ply_storage (snd (handle cf r s)) = ply_storage s)
   \<and> dom (gaussian_storage s) \<subseteq> dom (gaussian_storage (snd (run cf rs s)))
   \<and> dom (ply_storage s) \<subseteq> dom (ply_storage (snd (run cf rs s)))"
  using render_view_globals [of sid x y z w h rio s] generate_video_globals [of sid vio s]
    handle_not_upload [of r cf s] run_dom [of s cf rs]
  by blast

theorem render_and_video_keep_stores_witness:
  "renderer_calls (snd (render_view ''s1'' 0 0 0 800 600 example_render (example_stored True))) = 1
   \<and> gaussian_storage (snd (render_view ''s1'' 0 0 0 800 600 example_render (example_stored True)))
       = gaussian_storage (example_stored True)
   \<and> ply_storage (snd (handle (\<lambda>w h f. 1) (Video ''s1'' example_video) (example_stored True)))
       = ply_storage (example_stored True)"
proof -
  have rendered:
    "renderer_calls (snd (render_view ''s1'' 0 0 0 800 600 example_render (example_stored True))) = 1"
    by (simp add: render_view_def example_stored_def example_render_def Let_def)
  have no_upload: "\<forall>io. Video ''s1'' example_video \<noteq> Upload io"
    by simp
  from render_and_video_keep_stores [of "''s1''" 0 0 0 800 600 example_render "example_stored True"
      example_video "Video ''s1'' example_video" "\<lambda>w h f. 1" "[]"] no_upload rendered
  show ?thesis by blast
qed



end
